theory Spec2Isabelle
  imports Complex_Main
begin

section \<open>Python values read from the MagicPod report\<close>

text \<open>
  \<^verbatim>\<open>json.load\<close> yields \<^verbatim>\<open>None\<close>, booleans, integers, floats, strings, lists and
  dictionaries. A dictionary is kept as the list of its items in insertion order (the keys
  of a parsed dictionary are distinct); characters are code points below 256.
\<close>

datatype pyfloat = Finite rat | PosInf | NegInf | NaN

datatype json =
    JNull
  | JBool bool
  | JInt int
  | JFloat pyfloat
  | JStr string
  | JArr "json list"
  | JObj "(string \<times> json) list"

datatype error =
    FileNotFoundError
  | OSError
  | JSONDecodeError
  | KeyError string
  | IndexError
  | TypeError
  | AttributeError
  | UnboundLocalError string
  | SystemExit nat
  | RequestException
  | HTTPError nat

text \<open>Truth value of a Python object, as \<^verbatim>\<open>not x\<close>, \<^verbatim>\<open>x or y\<close> and \<^verbatim>\<open>if x\<close> test it.\<close>

fun truthy :: "json \<Rightarrow> bool" where
  "truthy JNull = False"
| "truthy (JBool b) = b"
| "truthy (JInt i) = (i \<noteq> 0)"
| "truthy (JFloat f) = (f \<noteq> Finite 0)"
| "truthy (JStr s) = (s \<noteq> [])"
| "truthy (JArr xs) = (xs \<noteq> [])"
| "truthy (JObj kvs) = (kvs \<noteq> [])"

text \<open>An optional command-line string: \<^verbatim>\<open>None\<close> and the empty string are false.\<close>

fun truthy_opt :: "string option \<Rightarrow> bool" where
  "truthy_opt None = False"
| "truthy_opt (Some s) = (s \<noteq> [])"

subsection \<open>String operations\<close>

text \<open>\<^verbatim>\<open>str.lower\<close> on code points below 256: A-Z and the Latin-1 capitals move by 32.\<close>

definition lower_char :: "char \<Rightarrow> char" where
  "lower_char c =
     (let n = (of_char c :: nat)
      in if (65 \<le> n \<and> n \<le> 90) \<or> (192 \<le> n \<and> n \<le> 222 \<and> n \<noteq> 215)
         then char_of (n + 32) else c)"

definition lower :: "string \<Rightarrow> string" where
  "lower s = map lower_char s"

fun startswith :: "string \<Rightarrow> string \<Rightarrow> bool" where
  "startswith s [] = True"
| "startswith [] (p # ps) = False"
| "startswith (c # cs) (p # ps) = (c = p \<and> startswith cs ps)"

text \<open>\<^verbatim>\<open>sub in s\<close> for two strings: \<open>sub\<close> occurs in \<open>s\<close> as a contiguous run.\<close>

fun str_in :: "string \<Rightarrow> string \<Rightarrow> bool" where
  "str_in sub [] = (sub = [])"
| "str_in sub (c # cs) = (startswith (c # cs) sub \<or> str_in sub cs)"

text \<open>\<^verbatim>\<open>s.split(sep)\<close> for a one-character separator.\<close>

fun split_on :: "char \<Rightarrow> string \<Rightarrow> string list" where
  "split_on sep [] = [[]]"
| "split_on sep (c # cs) =
     (if c = sep then [] # split_on sep cs
      else (case split_on sep cs of
              [] \<Rightarrow> [[c]]
            | p # ps \<Rightarrow> (c # p) # ps))"

text \<open>\<^verbatim>\<open>xs[-1]\<close>: the last element, \<^verbatim>\<open>IndexError\<close> on an empty list.\<close>

definition py_last :: "'a list \<Rightarrow> error + 'a" where
  "py_last xs = (case rev xs of [] \<Rightarrow> Inl IndexError | x # _ \<Rightarrow> Inr x)"

text \<open>\<^verbatim>\<open>s.rstrip(chars)\<close> and \<^verbatim>\<open>s.strip(chars)\<close>: every leading and trailing character
  that is one of \<open>chars\<close> goes.\<close>

definition rstrip :: "string \<Rightarrow> string \<Rightarrow> string" where
  "rstrip chars s = rev (dropWhile (\<lambda>c. c \<in> set chars) (rev s))"

definition strip :: "string \<Rightarrow> string \<Rightarrow> string" where
  "strip chars s = rstrip chars (dropWhile (\<lambda>c. c \<in> set chars) s)"

text \<open>
  \<^verbatim>\<open>str(x)\<close>, as an f-string formats a value: a string is itself; the text of any other
  value is the interpreter's, taken as the parameter \<open>repr\<close>.
\<close>

definition py_str :: "(json \<Rightarrow> string) \<Rightarrow> json \<Rightarrow> string" where
  "py_str repr v = (case v of JStr s \<Rightarrow> s | _ \<Rightarrow> repr v)"

subsection \<open>Dictionary and container operations\<close>

text \<open>\<^verbatim>\<open>obj.get(key, default)\<close>: only a dictionary has the method.\<close>

definition py_get :: "json \<Rightarrow> string \<Rightarrow> json \<Rightarrow> error + json" where
  "py_get obj key dflt =
     (case obj of
        JObj kvs \<Rightarrow> Inr (case map_of kvs key of Some v \<Rightarrow> v | None \<Rightarrow> dflt)
      | _ \<Rightarrow> Inl AttributeError)"

text \<open>\<^verbatim>\<open>obj[key]\<close> with a string key.\<close>

definition py_getitem :: "json \<Rightarrow> string \<Rightarrow> error + json" where
  "py_getitem obj key =
     (case obj of
        JObj kvs \<Rightarrow> (case map_of kvs key of Some v \<Rightarrow> Inr v | None \<Rightarrow> Inl (KeyError key))
      | _ \<Rightarrow> Inl TypeError)"

text \<open>The elements a \<^verbatim>\<open>for\<close> loop visits: a dictionary gives its keys, a string its
  characters.\<close>

definition py_iter :: "json \<Rightarrow> error + json list" where
  "py_iter v =
     (case v of
        JArr xs \<Rightarrow> Inr xs
      | JObj kvs \<Rightarrow> Inr (map (\<lambda>kv. JStr (fst kv)) kvs)
      | JStr s \<Rightarrow> Inr (map (\<lambda>c. JStr [c]) s)
      | _ \<Rightarrow> Inl TypeError)"

text \<open>\<^verbatim>\<open>sub in v\<close> for a string \<open>sub\<close>: substring of a string, element of a list, key of a
  dictionary.\<close>

definition py_contains :: "string \<Rightarrow> json \<Rightarrow> error + bool" where
  "py_contains sub v =
     (case v of
        JStr s \<Rightarrow> Inr (str_in sub s)
      | JArr xs \<Rightarrow> Inr (List.member xs (JStr sub))
      | JObj kvs \<Rightarrow> Inr (List.member (map fst kvs) sub)
      | _ \<Rightarrow> Inl TypeError)"

section \<open>The status mapper\<close>

definition map_status :: "json \<Rightarrow> error + string" where
  "map_status mp_status =
     (case (if truthy mp_status then mp_status else JStr []) of
        JStr s \<Rightarrow>
          (let mp_status = lower s
           in if str_in mp_status ''succeeded'' then Inr ''PASSED''
              else if str_in mp_status ''failed'' then Inr ''FAILED''
              else if mp_status = ''skipped'' then Inr ''TODO''
              else Inr ''TODO'')
      | _ \<Rightarrow> Inl AttributeError)"

section \<open>The report converter\<close>

text \<open>
  The key extraction of the loop body: the name must contain both brackets; the candidate
  is the part after the last opening bracket, stripped of closing brackets; it is a key
  when it contains a hyphen. \<open>None\<close> is the initial \<^verbatim>\<open>test_key = None\<close>.
\<close>

definition extract_test_key :: "json \<Rightarrow> error + string option" where
  "extract_test_key test_name =
     (case py_contains ''['' test_name of
        Inl e \<Rightarrow> Inl e
      | Inr has_open \<Rightarrow>
          if \<not> has_open then Inr None
          else (case py_contains '']'' test_name of
                  Inl e \<Rightarrow> Inl e
                | Inr has_close \<Rightarrow>
                    if \<not> has_close then Inr None
                    else (case test_name of
                            JStr s \<Rightarrow>
                              (case py_last (split_on CHR ''['' s) of
                                 Inl e \<Rightarrow> Inl e
                               | Inr part \<Rightarrow>
                                   (let candidate = strip '']'' part
                                    in if str_in ''-'' candidate then Inr (Some candidate)
                                       else Inr None))
                          | _ \<Rightarrow> Inl AttributeError)))"

text \<open>The name of a result record: \<^verbatim>\<open>result.get("test_case", {}).get("name", "Unnamed Test")\<close>.\<close>

definition test_name_of :: "json \<Rightarrow> error + json" where
  "test_name_of result =
     (case py_get result ''test_case'' (JObj []) of
        Inl e \<Rightarrow> Inl e
      | Inr tc \<Rightarrow> py_get tc ''name'' (JStr ''Unnamed Test''))"

text \<open>One pass of the inner loop body: the Test Entry of a result record.\<close>

definition make_entry :: "(json \<Rightarrow> string) \<Rightarrow> json \<Rightarrow> error + json" where
  "make_entry repr result =
     (case test_name_of result of
        Inl e \<Rightarrow> Inl e
      | Inr test_name \<Rightarrow>
     (case py_get result ''status'' (JStr []) of
        Inl e \<Rightarrow> Inl e
      | Inr st \<Rightarrow>
     (case map_status st of
        Inl e \<Rightarrow> Inl e
      | Inr status \<Rightarrow>
     (case extract_test_key test_name of
        Inl e \<Rightarrow> Inl e
      | Inr test_key \<Rightarrow>
          (let test_entry =
                 [(''status'', JStr status),
                  (''comment'',
                   JStr (''Imported from MagicPod. Original test: '' @ py_str repr test_name))]
           in (case (if truthy_opt test_key then test_key else None) of
                 Some key \<Rightarrow> Inr (JObj (test_entry @ [(''testKey'', JStr key)]))
               | None \<Rightarrow>
                   Inr (JObj (test_entry @
                     [(''testInfo'',
                       JObj [(''summary'', test_name), (''type'', JStr ''Manual'')])]))))))))"

text \<open>The two loops; \<open>tests\<close> is \<^verbatim>\<open>execution["tests"]\<close>, appended to in place.\<close>

fun results_loop :: "(json \<Rightarrow> string) \<Rightarrow> json list \<Rightarrow> json list \<Rightarrow> error + json list" where
  "results_loop repr tests [] = Inr tests"
| "results_loop repr tests (result # rest) =
     (case make_entry repr result of
        Inl e \<Rightarrow> Inl e
      | Inr test_entry \<Rightarrow> results_loop repr (tests @ [test_entry]) rest)"

fun details_loop :: "(json \<Rightarrow> string) \<Rightarrow> json list \<Rightarrow> json list \<Rightarrow> error + json list" where
  "details_loop repr tests [] = Inr tests"
| "details_loop repr tests (detail # rest) =
     (case py_get detail ''results'' (JArr []) of
        Inl e \<Rightarrow> Inl e
      | Inr rs \<Rightarrow>
     (case py_iter rs of
        Inl e \<Rightarrow> Inl e
      | Inr results \<Rightarrow>
     (case results_loop repr tests results of
        Inl e \<Rightarrow> Inl e
      | Inr tests' \<Rightarrow> details_loop repr tests' rest)))"

text \<open>
  The default labels of the no-override path. \<open>description\<close> is assigned on that path
  only: \<open>None\<close> is the unbound local.
\<close>

definition default_labels ::
  "(json \<Rightarrow> string) \<Rightarrow> json \<Rightarrow> string option \<Rightarrow> error + string \<times> string option" where
  "default_labels repr mp summary =
     (case (if truthy_opt summary then summary else None) of
        None \<Rightarrow>
          (case py_getitem mp ''url'' of
             Inl e \<Rightarrow> Inl e
           | Inr u \<Rightarrow>
               (case py_getitem mp ''url'' of
                  Inl e \<Rightarrow> Inl e
                | Inr u' \<Rightarrow>
                    Inr (''MagicPod Batch Run: '' @ py_str repr u,
                         Some (''Imported automatically from MagicPod. \<newline> MagicPod URL: ''
                               @ py_str repr u'))))
      | Some given \<Rightarrow> Inr (given, None))"

text \<open>The body of \<^verbatim>\<open>convert_magicpod_to_xray\<close> once the file is loaded.\<close>

definition convert_loaded :: "(json \<Rightarrow> string) \<Rightarrow> json \<Rightarrow> string option \<Rightarrow> error + json" where
  "convert_loaded repr mp summary =
     (case default_labels repr mp summary of
        Inl e \<Rightarrow> Inl e
      | Inr (summary', description) \<Rightarrow>
     (case description of
        None \<Rightarrow> Inl (UnboundLocalError ''description'')
      | Some description' \<Rightarrow>
     (case py_get mp ''test_cases'' (JObj []) of
        Inl e \<Rightarrow> Inl e
      | Inr test_cases \<Rightarrow>
     (case py_get test_cases ''details'' (JArr []) of
        Inl e \<Rightarrow> Inl e
      | Inr details \<Rightarrow>
     (case py_iter details of
        Inl e \<Rightarrow> Inl e
      | Inr groups \<Rightarrow>
     (case details_loop repr [] groups of
        Inl e \<Rightarrow> Inl e
      | Inr tests \<Rightarrow>
          Inr (JObj [(''info'', JObj [(''summary'', JStr summary'),
                                     (''description'', JStr description')]),
                     (''tests'', JArr tests)])))))))"

section \<open>Files, the network and the program\<close>

text \<open>
  What \<^verbatim>\<open>open\<close> and \<^verbatim>\<open>json.load\<close> make of a path: no such file, a file that cannot be
  read, content that is not JSON, or the parsed document.
\<close>

datatype file_state = Missing | Unreadable | Malformed | Document json

text \<open>The answer to an HTTP POST: no answer, or a status, a body and the body as JSON.\<close>

datatype reply = NoReply | Reply nat string "json option"

record world =
  files :: "string \<Rightarrow> file_state"
  clock :: nat
  http_post :: "string \<Rightarrow> (string \<times> string) list \<Rightarrow> json \<Rightarrow> reply"

definition convert_magicpod_to_xray ::
  "(json \<Rightarrow> string) \<Rightarrow> world \<Rightarrow> string \<Rightarrow> string option \<Rightarrow> error + json" where
  "convert_magicpod_to_xray repr w mp_file summary =
     (case files w mp_file of
        Missing \<Rightarrow> Inl FileNotFoundError
      | Unreadable \<Rightarrow> Inl OSError
      | Malformed \<Rightarrow> Inl JSONDecodeError
      | Document mp \<Rightarrow> convert_loaded repr mp summary)"

text \<open>What the program sends and prints, in order.\<close>

datatype printed = Payload_banner | Dump json | Upload_failed string | Success_banner

datatype event = HttpPost string "(string \<times> string) list" json | Printed printed

record args =
  arg_base_url :: string
  arg_client_id :: "string option"
  arg_client_secret :: "string option"
  arg_magicpod_json :: string
  arg_summary :: "string option"

record importer =
  base_url :: string
  client_id :: string
  client_secret :: string
  token :: string

text \<open>\<^verbatim>\<open>resp.raise_for_status()\<close> raises for a status from 400 to 599.\<close>

definition is_error_status :: "nat \<Rightarrow> bool" where
  "is_error_status status = (400 \<le> status \<and> status < 600)"

definition authenticate ::
  "world \<Rightarrow> string \<Rightarrow> string \<Rightarrow> string \<Rightarrow> event list \<times> (error + string)" where
  "authenticate w base cid secret =
     (let url = base @ ''/api/v2/authenticate'';
          payload = JObj [(''client_id'', JStr cid), (''client_secret'', JStr secret)];
          sent = [HttpPost url [] payload]
      in (case http_post w url [] payload of
            NoReply \<Rightarrow> (sent, Inl RequestException)
          | Reply status body parsed \<Rightarrow>
              if is_error_status status then (sent, Inl (HTTPError status))
              else (sent, Inr (strip [CHR 0x22] body))))"

definition XrayResultImporter ::
  "world \<Rightarrow> string \<Rightarrow> string \<Rightarrow> string \<Rightarrow> event list \<times> (error + importer)" where
  "XrayResultImporter w url cid secret =
     (let base = rstrip ''/'' url
      in (case authenticate w base cid secret of
            (sent, Inl e) \<Rightarrow> (sent, Inl e)
          | (sent, Inr tok) \<Rightarrow>
              (sent, Inr \<lparr>base_url = base, client_id = cid, client_secret = secret,
                          token = tok\<rparr>)))"

definition headers :: "importer \<Rightarrow> (string \<times> string) list" where
  "headers self =
     [(''Authorization'', ''Bearer '' @ token self),
      (''Content-Type'', ''application/json'')]"

definition import_results :: "world \<Rightarrow> importer \<Rightarrow> json \<Rightarrow> event list \<times> (error + json)" where
  "import_results w self execution_payload =
     (let url = base_url self @ ''/api/v2/import/execution'';
          sent = [HttpPost url (headers self) execution_payload]
      in (case http_post w url (headers self) execution_payload of
            NoReply \<Rightarrow> (sent, Inl RequestException)
          | Reply status body parsed \<Rightarrow>
              if is_error_status status
              then (sent @ [Printed (Upload_failed body)], Inl (HTTPError status))
              else (case parsed of
                      None \<Rightarrow> (sent, Inl JSONDecodeError)
                    | Some response \<Rightarrow> (sent, Inr response))))"

text \<open>The script body, from the credential check on; \<^verbatim>\<open>parser.error\<close> exits with status 2.\<close>

definition main :: "(json \<Rightarrow> string) \<Rightarrow> world \<Rightarrow> args \<Rightarrow> event list \<times> (error + unit)" where
  "main repr w a =
     (case (if truthy_opt (arg_client_id a) then arg_client_id a else None,
            if truthy_opt (arg_client_secret a) then arg_client_secret a else None) of
        (Some cid, Some secret) \<Rightarrow>
          (case XrayResultImporter w (arg_base_url a) cid secret of
             (t1, Inl e) \<Rightarrow> (t1, Inl e)
           | (t1, Inr imp) \<Rightarrow>
               (case convert_magicpod_to_xray repr w (arg_magicpod_json a) (arg_summary a) of
                  Inl e \<Rightarrow> (t1, Inl e)
                | Inr payload \<Rightarrow>
                    (let t2 = t1 @ [Printed Payload_banner, Printed (Dump payload)]
                     in (case import_results w imp payload of
                           (t3, Inl e) \<Rightarrow> (t2 @ t3, Inl e)
                         | (t3, Inr response) \<Rightarrow>
                             (let t4 = t2 @ t3 @ [Printed Success_banner, Printed (Dump response)]
                              in if \<not> truthy_opt (arg_client_id a) \<or>
                                    \<not> truthy_opt (arg_client_secret a)
                                 then (t4, Inl (SystemExit 2))
                                 else (t4, Inr ()))))))
      | _ \<Rightarrow> ([], Inl (SystemExit 2)))"

section \<open>Reading the documents\<close>

text \<open>A field of a dictionary, and the elements of a list, where there are any.\<close>

definition field :: "string \<Rightarrow> json \<Rightarrow> json option" where
  "field key v = (case v of JObj kvs \<Rightarrow> map_of kvs key | _ \<Rightarrow> None)"

definition items :: "json \<Rightarrow> json list" where
  "items v = (case v of JArr xs \<Rightarrow> xs | _ \<Rightarrow> [])"

definition tests_of :: "json \<Rightarrow> json list" where
  "tests_of doc = (case field ''tests'' doc of Some ts \<Rightarrow> items ts | None \<Rightarrow> [])"


text \<open>
  The result records of a source report in document order: the detail groups of
  \<^verbatim>\<open>test_cases.details\<close> in order, and the \<^verbatim>\<open>results\<close> of each group in order.
\<close>

definition group_results :: "json \<Rightarrow> json list" where
  "group_results detail = (case field ''results'' detail of Some rs \<Rightarrow> items rs | None \<Rightarrow> [])"

definition detail_groups :: "json \<Rightarrow> json list" where
  "detail_groups mp =
     (case field ''test_cases'' mp of
        None \<Rightarrow> []
      | Some tc \<Rightarrow> (case field ''details'' tc of Some ds \<Rightarrow> items ds | None \<Rightarrow> []))"

definition source_results :: "json \<Rightarrow> json list" where
  "source_results mp = concat (map group_results (detail_groups mp))"

text \<open>
  The identity rule as the specification words it: the part of the name after the last
  opening bracket, with one trailing closing bracket removed, is the candidate; it is the
  key when the name has both brackets and the candidate has a hyphen.
\<close>

definition after_last_open :: "string \<Rightarrow> string" where
  "after_last_open name = rev (takeWhile (\<lambda>c. c \<noteq> CHR ''['') (rev name))"

definition strip_one_trailing :: "char \<Rightarrow> string \<Rightarrow> string" where
  "strip_one_trailing c s = (if s \<noteq> [] \<and> last s = c then butlast s else s)"

definition stated_test_key :: "string \<Rightarrow> string option" where
  "stated_test_key name =
     (let candidate = strip_one_trailing CHR '']'' (after_last_open name)
      in if CHR ''['' \<in> set name \<and> CHR '']'' \<in> set name \<and> CHR ''-'' \<in> set candidate
         then Some candidate else None)"

text \<open>
  Reports of the shape the data model gives: an object with a url; where present,
  \<^verbatim>\<open>test_cases\<close> an object, \<^verbatim>\<open>details\<close> and \<^verbatim>\<open>results\<close> lists of objects,
  \<^verbatim>\<open>test_case\<close> an object, and names and statuses strings.
\<close>

definition result_well_formed :: "json \<Rightarrow> bool" where
  "result_well_formed r =
     (case r of
        JObj kvs \<Rightarrow>
          (case map_of kvs ''test_case'' of
             None \<Rightarrow> True
           | Some (JObj tc) \<Rightarrow>
               (case map_of tc ''name'' of None \<Rightarrow> True | Some (JStr n) \<Rightarrow> True | Some _ \<Rightarrow> False)
           | Some _ \<Rightarrow> False) \<and>
          (case map_of kvs ''status'' of None \<Rightarrow> True | Some (JStr s) \<Rightarrow> True | Some _ \<Rightarrow> False)
      | _ \<Rightarrow> False)"

definition group_well_formed :: "json \<Rightarrow> bool" where
  "group_well_formed d =
     (case d of
        JObj kvs \<Rightarrow>
          (case map_of kvs ''results'' of
             None \<Rightarrow> True
           | Some (JArr rs) \<Rightarrow> list_all result_well_formed rs
           | Some _ \<Rightarrow> False)
      | _ \<Rightarrow> False)"

definition report_well_formed :: "json \<Rightarrow> bool" where
  "report_well_formed mp =
     (case mp of
        JObj kvs \<Rightarrow>
          map_of kvs ''url'' \<noteq> None \<and>
          (case map_of kvs ''test_cases'' of
             None \<Rightarrow> True
           | Some (JObj tc) \<Rightarrow>
               (case map_of tc ''details'' of
                  None \<Rightarrow> True
                | Some (JArr ds) \<Rightarrow> list_all group_well_formed ds
                | Some _ \<Rightarrow> False)
           | Some _ \<Rightarrow> False)
      | _ \<Rightarrow> False)"


section \<open>Sample inputs\<close>

definition sample_repr :: "json \<Rightarrow> string" where
  "sample_repr v = ''<value>''"

definition sample_report :: json where
  "sample_report =
     JObj [(''url'', JStr ''https://app.magicpod.com/run/7''),
           (''test_cases'', JObj [(''details'', JArr [
              JObj [(''results'', JArr [
                 JObj [(''status'', JStr ''succeeded''),
                       (''test_case'', JObj [(''name'', JStr ''A [X-1]'')])]])],
              JObj [(''results'', JArr [
                 JObj [(''status'', JStr ''failed''),
                       (''test_case'', JObj [(''name'', JStr ''B'')])]])]])])]"

definition sample_files :: "string \<Rightarrow> file_state" where
  "sample_files p =
     (if p = ''report.json'' then Document sample_report
      else if p = ''bare.json'' then Document (JObj [])
      else if p = ''brief.json'' then Document (JObj [(''url'', JStr ''https://app.magicpod.com/run/8'')])
      else if p = ''broken.json'' then Malformed
      else Missing)"

definition accepting :: "string \<Rightarrow> (string \<times> string) list \<Rightarrow> json \<Rightarrow> reply" where
  "accepting url hdrs body = Reply 200 ''token'' (Some (JObj []))"

definition unreachable :: "string \<Rightarrow> (string \<times> string) list \<Rightarrow> json \<Rightarrow> reply" where
  "unreachable url hdrs body = NoReply"

definition sample_world :: world where
  "sample_world = \<lparr>files = sample_files, clock = 0, http_post = accepting\<rparr>"

definition later_world :: world where
  "later_world = \<lparr>files = sample_files, clock = 86400, http_post = unreachable\<rparr>"



definition sample_args :: args where
  "sample_args =
     \<lparr>arg_base_url = ''https://xray.cloud.getxray.app/'',
      arg_client_id = Some ''id'',
      arg_client_secret = Some ''secret'',
      arg_magicpod_json = ''magicpod_result'',
      arg_summary = None\<rparr>"

definition sample_document :: json where
  "sample_document =
     JObj
       [(''info'',
         JObj [(''summary'', JStr ''MagicPod Batch Run: https://app.magicpod.com/run/7''),
               (''description'',
                JStr ''Imported automatically from MagicPod. \<newline> MagicPod URL: https://app.magicpod.com/run/7'')]),
        (''tests'',
         JArr [JObj [(''status'', JStr ''PASSED''),
                     (''comment'', JStr ''Imported from MagicPod. Original test: A [X-1]''),
                     (''testKey'', JStr ''X-1'')],
               JObj [(''status'', JStr ''FAILED''),
                     (''comment'', JStr ''Imported from MagicPod. Original test: B''),
                     (''testInfo'', JObj [(''summary'', JStr ''B''), (''type'', JStr ''Manual'')])]])]"

section \<open>The status mapper: properties\<close>

text \<open>
  C1. The claim: every status that is not one of the three labels, the empty string and an
  absent value among them, maps to TODO. The membership tests of the mapper are against
  the strings \<^verbatim>\<open>("succeeded")\<close> and \<^verbatim>\<open>("failed")\<close>, so they are substring tests:
  the empty status (what a record without a status gets) and \<^verbatim>\<open>None\<close> map to PASSED.
\<close>

theorem map_status_empty_passed:
  "map_status (JStr []) = Inr ''PASSED'' \<and> map_status JNull = Inr ''PASSED''"
  by (simp add: map_status_def lower_def)

text \<open>
  C7. Every string that lower-cases to "succeeded" maps to PASSED, to "failed" maps to
  FAILED, and to "skipped" maps to TODO.
\<close>

theorem map_status_known_labels:
  "(lower s = ''succeeded'' \<longrightarrow> map_status (JStr s) = Inr ''PASSED'') \<and>
   (lower s = ''failed'' \<longrightarrow> map_status (JStr s) = Inr ''FAILED'') \<and>
   (lower s = ''skipped'' \<longrightarrow> map_status (JStr s) = Inr ''TODO'')"
proof (intro conjI impI)
  assume h: "lower s = ''succeeded''"
  then have "s \<noteq> []" by (auto simp: lower_def)
  then show "map_status (JStr s) = Inr ''PASSED''"
    using h by (simp add: map_status_def)
next
  assume h: "lower s = ''failed''"
  then have "s \<noteq> []" by (auto simp: lower_def)
  then show "map_status (JStr s) = Inr ''FAILED''"
    using h by (simp add: map_status_def)
next
  assume h: "lower s = ''skipped''"
  then have "s \<noteq> []" by (auto simp: lower_def)
  then show "map_status (JStr s) = Inr ''TODO''"
    using h by (simp add: map_status_def)
qed

theorem map_status_known_labels_witness:
  "map_status (JStr ''Succeeded'') = Inr ''PASSED'' \<and>
   map_status (JStr ''FAILED'') = Inr ''FAILED'' \<and>
   map_status (JStr ''sKiPpEd'') = Inr ''TODO''"
proof -
  have a: "lower ''Succeeded'' = ''succeeded''" by code_simp
  have b: "lower ''FAILED'' = ''failed''" by code_simp
  have c: "lower ''sKiPpEd'' = ''skipped''" by code_simp
  show ?thesis
    using map_status_known_labels [of "''Succeeded''"] map_status_known_labels [of "''FAILED''"]
      map_status_known_labels [of "''sKiPpEd''"] a b c
    by blast
qed

section \<open>The converter: labels\<close>

lemma convert_override_unbound:
  "files w p = Document mp \<Longrightarrow> truthy_opt summ \<Longrightarrow>
   convert_magicpod_to_xray repr w p summ = Inl (UnboundLocalError ''description'')"
  by (cases summ)
     (simp_all add: convert_magicpod_to_xray_def convert_loaded_def default_labels_def)

text \<open>
  C2. The claim: with a non-empty caller-supplied summary the converter returns a document
  with that summary and a description computed from the url. The converter assigns
  \<^verbatim>\<open>description\<close> on the no-override path only, so with a summary it raises
  \<^verbatim>\<open>UnboundLocalError\<close> when it builds the document, whatever the report.
\<close>

theorem convert_with_summary_fails:
  "convert_magicpod_to_xray repr sample_world ''report.json'' (Some ''Nightly run'') =
     Inl (UnboundLocalError ''description'')"
  by (rule convert_override_unbound) (simp_all add: sample_world_def sample_files_def)

text \<open>
  C10. A report that parses to an object with no "url" field, converted with no summary
  (none at all, or the empty string), fails with the key-lookup error for "url".
\<close>

theorem convert_without_url:
  "files w p = Document (JObj kvs) \<Longrightarrow> map_of kvs ''url'' = None \<Longrightarrow> \<not> truthy_opt summ \<Longrightarrow>
   convert_magicpod_to_xray repr w p summ = Inl (KeyError ''url'')"
  by (simp add: convert_magicpod_to_xray_def convert_loaded_def default_labels_def
      py_getitem_def)

theorem convert_without_url_witness:
  "convert_magicpod_to_xray sample_repr sample_world ''bare.json'' None = Inl (KeyError ''url'') \<and>
   convert_magicpod_to_xray sample_repr sample_world ''bare.json'' (Some []) = Inl (KeyError ''url'')"
  using convert_without_url [of sample_world "''bare.json''" "[]" None sample_repr]
    convert_without_url [of sample_world "''bare.json''" "[]" "Some []" sample_repr]
  by (simp add: sample_world_def sample_files_def)

text \<open>
  C9. With no caller-supplied summary, the conversion of a path depends on nothing but
  what the file at that path holds: two worlds that agree on the file (whatever their
  clocks and networks) give the same result.
\<close>

theorem convert_depends_on_file_only:
  "files w1 p = files w2 p \<Longrightarrow>
   convert_magicpod_to_xray repr w1 p None = convert_magicpod_to_xray repr w2 p None"
  by (simp add: convert_magicpod_to_xray_def)

theorem convert_depends_on_file_only_witness:
  "files sample_world ''report.json'' = files later_world ''report.json'' \<and>
   clock sample_world \<noteq> clock later_world \<and>
   convert_magicpod_to_xray sample_repr sample_world ''report.json'' None =
   convert_magicpod_to_xray sample_repr later_world ''report.json'' None"
  using convert_depends_on_file_only [of sample_world "''report.json''" later_world sample_repr]
  by (simp add: sample_world_def later_world_def)

section \<open>The program: order of the network calls\<close>

lemma convert_bad_file:
  "files w p \<in> {Missing, Unreadable, Malformed} \<Longrightarrow> isl (convert_magicpod_to_xray repr w p summ)"
  by (auto simp: convert_magicpod_to_xray_def)

lemma authenticate_trace:
  "fst (authenticate w base cid secret) =
     [HttpPost (base @ ''/api/v2/authenticate'') []
        (JObj [(''client_id'', JStr cid), (''client_secret'', JStr secret)])]"
  by (simp add: authenticate_def Let_def split: reply.splits)

lemma importer_trace:
  "fst (XrayResultImporter w url cid secret) =
     [HttpPost (rstrip ''/'' url @ ''/api/v2/authenticate'') []
        (JObj [(''client_id'', JStr cid), (''client_secret'', JStr secret)])]"
  using authenticate_trace [of w "rstrip ''/'' url" cid secret]
  by (auto simp: XrayResultImporter_def Let_def split: prod.splits sum.splits)

text \<open>
  C3, as stated, has the invocation abort before any network call when the report is
  missing. The script builds the importer, whose constructor authenticates, before it
  reads the file: with credentials and a reachable service the authentication request is
  sent, and then the read fails.
\<close>

theorem report_missing_after_authentication:
  "files sample_world (arg_magicpod_json sample_args) = Missing \<and>
   main sample_repr sample_world sample_args =
     ([HttpPost ''https://xray.cloud.getxray.app/api/v2/authenticate'' []
         (JObj [(''client_id'', JStr ''id''), (''client_secret'', JStr ''secret'')])],
      Inl FileNotFoundError)"
  by code_simp

text \<open>
  C3, as amended. When the report file is missing, unreadable or not JSON, the invocation
  ends in an error and never sends the import request: it has sent nothing, or the one
  authentication request and nothing else.
\<close>

theorem main_bad_report:
  "files w (arg_magicpod_json a) \<in> {Missing, Unreadable, Malformed} \<Longrightarrow>
   isl (snd (main repr w a)) \<and>
   (fst (main repr w a) = [] \<or>
    (\<exists>cid secret. fst (main repr w a) =
       [HttpPost (rstrip ''/'' (arg_base_url a) @ ''/api/v2/authenticate'') []
          (JObj [(''client_id'', JStr cid), (''client_secret'', JStr secret)])]))"
proof -
  assume bad: "files w (arg_magicpod_json a) \<in> {Missing, Unreadable, Malformed}"
  have conv: "isl (convert_magicpod_to_xray repr w (arg_magicpod_json a) (arg_summary a))"
    using bad by (rule convert_bad_file)
  show ?thesis
  proof (cases "truthy_opt (arg_client_id a) \<and> truthy_opt (arg_client_secret a)")
    case False
    then have "main repr w a = ([], Inl (SystemExit 2))"
      by (auto simp: main_def split: option.splits)
    then show ?thesis by simp
  next
    case True
    then obtain cid secret
      where ids: "arg_client_id a = Some cid" "arg_client_secret a = Some secret"
      by (cases "arg_client_id a"; cases "arg_client_secret a") auto
    obtain t1 r where imp: "XrayResultImporter w (arg_base_url a) cid secret = (t1, r)"
      by (cases "XrayResultImporter w (arg_base_url a) cid secret")
    have t1: "t1 = [HttpPost (rstrip ''/'' (arg_base_url a) @ ''/api/v2/authenticate'') []
          (JObj [(''client_id'', JStr cid), (''client_secret'', JStr secret)])]"
      using importer_trace [of w "arg_base_url a" cid secret] imp by simp
    from conv obtain e
      where e: "convert_magicpod_to_xray repr w (arg_magicpod_json a) (arg_summary a) = Inl e"
      by (cases "convert_magicpod_to_xray repr w (arg_magicpod_json a) (arg_summary a)") auto
    have "fst (main repr w a) = t1 \<and> isl (snd (main repr w a))"
      using True ids imp e by (cases r) (simp_all add: main_def)
    then show ?thesis using t1 by blast
  qed
qed

theorem main_bad_report_witness:
  "files sample_world (arg_magicpod_json sample_args) = Missing \<and>
   isl (snd (main sample_repr sample_world sample_args)) \<and>
   length (fst (main sample_repr sample_world sample_args)) \<le> 1"
  using main_bad_report [of sample_world sample_args sample_repr]
  by (auto simp: sample_world_def sample_files_def sample_args_def)

section \<open>The identity resolver\<close>

lemma str_in_single: "str_in [c] s \<longleftrightarrow> c \<in> set s"
  by (induction s) auto

lemma split_on_not_Nil: "split_on c s \<noteq> []"
  by (induction s) (auto split: list.splits)

lemma split_on_no_sep: "c \<notin> set s \<Longrightarrow> split_on c s = [s]"
  by (induction s) auto

lemma split_on_single: "split_on c s = [p] \<Longrightarrow> c \<notin> set s"
proof (induction s arbitrary: p)
  case Nil
  then show ?case by simp
next
  case (Cons x xs)
  then show ?case
    using split_on_not_Nil [of c xs] by (auto split: if_splits list.splits)
qed

lemma last_split_on:
  "last (split_on c s) = rev (takeWhile (\<lambda>x. x \<noteq> c) (rev s))"
proof (induction s)
  case Nil
  then show ?case by simp
next
  case (Cons x xs)
  show ?case
  proof (cases "x = c")
    case True
    then show ?thesis
      using Cons split_on_not_Nil [of c xs] by (simp add: takeWhile_append)
  next
    case False
    obtain p ps where pps: "split_on c xs = p # ps"
      using split_on_not_Nil [of c xs] by (cases "split_on c xs") auto
    show ?thesis
    proof (cases "ps = []")
      case True
      then have "c \<notin> set xs" using pps split_on_single by blast
      then have "split_on c xs = [xs]" "takeWhile (\<lambda>x. x \<noteq> c) (rev xs) = rev xs"
        by (auto simp: split_on_no_sep)
      then show ?thesis using False pps True by (simp add: takeWhile_append)
    next
      case nonempty: False
      then have "c \<in> set xs"
        using pps split_on_no_sep [of c xs] by auto
      then have "takeWhile (\<lambda>x. x \<noteq> c) (rev xs @ [x]) = takeWhile (\<lambda>x. x \<noteq> c) (rev xs)"
        by (auto simp: takeWhile_append)
      then show ?thesis using False pps nonempty Cons by simp
    qed
  qed
qed

lemma py_last_split_on: "py_last (split_on CHR ''['' s) = Inr (after_last_open s)"
proof -
  obtain y ys where r: "rev (split_on CHR ''['' s) = y # ys"
    using split_on_not_Nil [of "CHR ''[''" s] by (cases "rev (split_on CHR ''['' s)") auto
  then have "last (split_on CHR ''['' s) = y"
    by (metis last_rev hd_rev list.sel(1) rev_rev_ident)
  then show ?thesis
    using r last_split_on [of "CHR ''[''" s] by (simp add: py_last_def after_last_open_def)
qed

lemma extract_test_key_JStr:
  "extract_test_key (JStr name) =
     Inr (let candidate = strip '']'' (after_last_open name)
          in if CHR ''['' \<in> set name \<and> CHR '']'' \<in> set name \<and> CHR ''-'' \<in> set candidate
             then Some candidate else None)"
  by (simp add: extract_test_key_def py_contains_def str_in_single py_last_split_on Let_def)

text \<open>
  C4, as amended. For every test name, the resolver yields a key exactly when the name
  contains both brackets and the candidate contains a hyphen, where the candidate is the
  part after the last opening bracket with every leading and trailing closing bracket
  stripped; the key is then that candidate. Otherwise there is no key.
\<close>

theorem extract_test_key_of_name:
  "extract_test_key (JStr name) =
     Inr (let candidate = strip '']'' (after_last_open name)
          in if CHR ''['' \<in> set name \<and> CHR '']'' \<in> set name \<and> CHR ''-'' \<in> set candidate
             then Some candidate else None)"
  by (rule extract_test_key_JStr)

theorem extract_test_key_of_name_witness:
  "extract_test_key (JStr ''Login [PROJ-12]'') = Inr (Some ''PROJ-12'') \<and>
   extract_test_key (JStr ''Smoke [nohyphen]'') = Inr None \<and>
   extract_test_key (JStr ''Checkout'') = Inr None"
proof -
  have a: "strip '']'' (after_last_open ''Login [PROJ-12]'') = ''PROJ-12''" by code_simp
  have b: "strip '']'' (after_last_open ''Smoke [nohyphen]'') = ''nohyphen''" by code_simp
  show ?thesis
    using extract_test_key_of_name [of "''Login [PROJ-12]''"]
      extract_test_key_of_name [of "''Smoke [nohyphen]''"]
      extract_test_key_of_name [of "''Checkout''"]
    by (simp add: a b)
qed

text \<open>
  C4, as stated, takes the part after the last opening bracket with a trailing closing
  bracket removed as the key. The code strips closing brackets at both ends.
\<close>

theorem stated_key_differs:
  "extract_test_key (JStr ''Login []PROJ-12'') = Inr (Some ''PROJ-12'') \<and>
   stated_test_key ''Login []PROJ-12'' = Some '']PROJ-12''"
  by code_simp

section \<open>The converter: test entries\<close>

lemma py_get_Inr: "py_get obj key dflt = Inr v \<Longrightarrow>
  \<exists>kvs. obj = JObj kvs \<and> v = (case map_of kvs key of Some x \<Rightarrow> x | None \<Rightarrow> dflt)"
  by (cases obj) (auto simp: py_get_def)

lemma make_entry_JStr: "make_entry repr (JStr s) = Inl AttributeError"
  by (simp add: make_entry_def test_name_of_def py_get_def)

lemma results_loop_acc:
  "results_loop repr tests rs = Inr t \<Longrightarrow>
   map Inr t = map Inr tests @ map (make_entry repr) rs"
proof (induction rs arbitrary: tests)
  case Nil
  then show ?case by simp
next
  case (Cons r rs)
  then obtain e where e: "make_entry repr r = Inr e"
    by (cases "make_entry repr r") auto
  with Cons.prems have "results_loop repr (tests @ [e]) rs = Inr t" by simp
  from Cons.IH [OF this] show ?case using e by simp
qed

lemma py_iter_results:
  assumes "py_iter v = Inr xs" and "results_loop repr tests xs = Inr t"
  shows "xs = items v"
proof (cases v)
  case (JArr ys)
  with assms show ?thesis by (simp add: py_iter_def items_def)
next
  case (JObj kvs)
  with assms show ?thesis
    by (cases kvs) (auto simp: py_iter_def items_def make_entry_JStr)
next
  case (JStr s)
  with assms show ?thesis
    by (cases s) (auto simp: py_iter_def items_def make_entry_JStr)
qed (use assms in \<open>auto simp: py_iter_def\<close>)

lemma details_loop_acc:
  "details_loop repr tests ds = Inr t \<Longrightarrow>
   map Inr t = map Inr tests @ map (make_entry repr) (concat (map group_results ds))"
proof (induction ds arbitrary: tests)
  case Nil
  then show ?case by simp
next
  case (Cons d ds)
  from Cons.prems obtain rs where rs: "py_get d ''results'' (JArr []) = Inr rs"
    by (cases "py_get d ''results'' (JArr [])") auto
  from Cons.prems rs obtain results where it: "py_iter rs = Inr results"
    by (cases "py_iter rs") auto
  from Cons.prems rs it obtain t' where t': "results_loop repr tests results = Inr t'"
    by (cases "results_loop repr tests results") auto
  from Cons.prems rs it t' have rest: "details_loop repr t' ds = Inr t" by simp
  have "results = items rs" using it t' by (rule py_iter_results)
  moreover have "group_results d = items rs"
    using py_get_Inr [OF rs] by (auto simp: group_results_def field_def items_def split: option.splits)
  ultimately have "group_results d = results" by simp
  then show ?case
    using results_loop_acc [OF t'] Cons.IH [OF rest] by simp
qed

lemma py_iter_details:
  assumes "py_iter v = Inr ds" and "details_loop repr tests ds = Inr t"
  shows "ds = items v"
proof (cases v)
  case (JArr ys)
  with assms show ?thesis by (simp add: py_iter_def items_def)
next
  case (JObj kvs)
  with assms show ?thesis
    by (cases kvs) (auto simp: py_iter_def items_def py_get_def)
next
  case (JStr s)
  with assms show ?thesis
    by (cases s) (auto simp: py_iter_def items_def py_get_def)
qed (use assms in \<open>auto simp: py_iter_def\<close>)

lemma convert_loaded_tests:
  assumes "convert_loaded repr mp summ = Inr doc"
  shows "map Inr (tests_of doc) = map (make_entry repr) (source_results mp)"
proof -
  from assms obtain s d where lab: "default_labels repr mp summ = Inr (s, Some d)"
    by (cases "default_labels repr mp summ")
       (auto simp: convert_loaded_def split: option.splits)
  from assms lab obtain tc where tc: "py_get mp ''test_cases'' (JObj []) = Inr tc"
    by (cases "py_get mp ''test_cases'' (JObj [])") (auto simp: convert_loaded_def)
  from assms lab tc obtain details where det: "py_get tc ''details'' (JArr []) = Inr details"
    by (cases "py_get tc ''details'' (JArr [])") (auto simp: convert_loaded_def)
  from assms lab tc det obtain groups where gr: "py_iter details = Inr groups"
    by (cases "py_iter details") (auto simp: convert_loaded_def)
  from assms lab tc det gr obtain tests where lp: "details_loop repr [] groups = Inr tests"
    by (cases "details_loop repr [] groups") (auto simp: convert_loaded_def)
  from assms lab tc det gr lp have doc: "tests_of doc = tests"
    by (auto simp: convert_loaded_def tests_of_def field_def items_def)
  have "groups = items details" using gr lp by (rule py_iter_details)
  moreover have "detail_groups mp = items details"
    using py_get_Inr [OF tc] py_get_Inr [OF det]
    by (auto simp: detail_groups_def field_def items_def split: option.splits)
  ultimately have "source_results mp = concat (map group_results groups)"
    by (simp add: source_results_def)
  then show ?thesis using details_loop_acc [OF lp] doc by simp
qed

text \<open>
  C5. The tests of a converted document are the Test Entries of the source result records,
  one for each record and in document order (the detail groups in order, the results of
  each group in order): nothing is dropped, merged or reordered.
\<close>

theorem tests_follow_source_results:
  "files w p = Document mp \<Longrightarrow> convert_magicpod_to_xray repr w p summ = Inr doc \<Longrightarrow>
   length (tests_of doc) = length (source_results mp) \<and>
   map Inr (tests_of doc) = map (make_entry repr) (source_results mp)"
proof -
  assume "files w p = Document mp" and "convert_magicpod_to_xray repr w p summ = Inr doc"
  then have "convert_loaded repr mp summ = Inr doc"
    by (simp add: convert_magicpod_to_xray_def)
  then have m: "map Inr (tests_of doc) = map (make_entry repr) (source_results mp)"
    by (rule convert_loaded_tests)
  then show ?thesis using map_eq_imp_length_eq [OF m] by simp
qed

lemma make_entry_shape:
  assumes "make_entry repr r = Inr e"
  shows "\<exists>name. test_name_of r = Inr name \<and>
           ((field ''testKey'' e \<noteq> None \<and> field ''testInfo'' e = None) \<or>
            (field ''testKey'' e = None \<and>
             field ''testInfo'' e =
               Some (JObj [(''summary'', name), (''type'', JStr ''Manual'')])))"
proof -
  from assms obtain name where n: "test_name_of r = Inr name"
    by (cases "test_name_of r") (auto simp: make_entry_def)
  from assms n obtain st where st: "py_get r ''status'' (JStr []) = Inr st"
    by (cases "py_get r ''status'' (JStr [])") (auto simp: make_entry_def)
  from assms n st obtain status where ms: "map_status st = Inr status"
    by (cases "map_status st") (auto simp: make_entry_def)
  from assms n st ms obtain key where k: "extract_test_key name = Inr key"
    by (cases "extract_test_key name") (auto simp: make_entry_def)
  show ?thesis
  proof (cases "truthy_opt key")
    case True
    then obtain kk where "key = Some kk" by (cases key) auto
    with assms n st ms k True
    have "field ''testKey'' e \<noteq> None \<and> field ''testInfo'' e = None"
      by (auto simp: make_entry_def field_def)
    with n show ?thesis by blast
  next
    case False
    with assms n st ms k
    have "field ''testKey'' e = None \<and>
          field ''testInfo'' e = Some (JObj [(''summary'', name), (''type'', JStr ''Manual'')])"
      by (auto simp: make_entry_def field_def)
    with n show ?thesis by blast
  qed
qed

text \<open>
  C6. Every Test Entry of a converted document has exactly one of testKey and testInfo,
  and a testInfo has the name of its result record as summary and the type "Manual".
\<close>

theorem entry_key_xor_info:
  "files w p = Document mp \<Longrightarrow> convert_magicpod_to_xray repr w p summ = Inr doc \<Longrightarrow>
   i < length (tests_of doc) \<Longrightarrow>
   (\<exists>name. test_name_of (source_results mp ! i) = Inr name \<and>
      ((field ''testKey'' (tests_of doc ! i) \<noteq> None \<and>
        field ''testInfo'' (tests_of doc ! i) = None) \<or>
       (field ''testKey'' (tests_of doc ! i) = None \<and>
        field ''testInfo'' (tests_of doc ! i) =
          Some (JObj [(''summary'', name), (''type'', JStr ''Manual'')]))))"
proof -
  assume f: "files w p = Document mp"
    and c: "convert_magicpod_to_xray repr w p summ = Inr doc"
    and i: "i < length (tests_of doc)"
  from f c have "convert_loaded repr mp summ = Inr doc"
    by (simp add: convert_magicpod_to_xray_def)
  then have m: "map Inr (tests_of doc) = map (make_entry repr) (source_results mp)"
    by (rule convert_loaded_tests)
  have len: "length (tests_of doc) = length (source_results mp)"
    using map_eq_imp_length_eq [OF m] .
  have "map Inr (tests_of doc) ! i = map (make_entry repr) (source_results mp) ! i"
    using m by simp
  then have "make_entry repr (source_results mp ! i) = Inr (tests_of doc ! i)"
    using i len by simp
  then show ?thesis by (rule make_entry_shape)
qed

lemma sample_conversion:
  "convert_magicpod_to_xray sample_repr sample_world ''report.json'' None =
     Inr (JObj
       [(''info'',
         JObj [(''summary'', JStr ''MagicPod Batch Run: https://app.magicpod.com/run/7''),
               (''description'',
                JStr ''Imported automatically from MagicPod. \<newline> MagicPod URL: https://app.magicpod.com/run/7'')]),
        (''tests'',
         JArr [JObj [(''status'', JStr ''PASSED''),
                     (''comment'', JStr ''Imported from MagicPod. Original test: A [X-1]''),
                     (''testKey'', JStr ''X-1'')],
               JObj [(''status'', JStr ''FAILED''),
                     (''comment'', JStr ''Imported from MagicPod. Original test: B''),
                     (''testInfo'', JObj [(''summary'', JStr ''B''), (''type'', JStr ''Manual'')])]])])"
  by code_simp

lemma sample_file: "files sample_world ''report.json'' = Document sample_report"
  by (simp add: sample_world_def sample_files_def)

theorem tests_follow_source_results_witness:
  "length (tests_of sample_document) = length (source_results sample_report) \<and>
   map Inr (tests_of sample_document) = map (make_entry sample_repr) (source_results sample_report) \<and>
   length (source_results sample_report) = 2"
proof -
  have c: "convert_magicpod_to_xray sample_repr sample_world ''report.json'' None = Inr sample_document"
    using sample_conversion by (simp add: sample_document_def)
  have "length (source_results sample_report) = 2" by code_simp
  then show ?thesis
    using tests_follow_source_results [OF sample_file c] by simp
qed

theorem entry_key_xor_info_witness:
  "(\<exists>name. test_name_of (source_results sample_report ! 1) = Inr name \<and>
      ((field ''testKey'' (tests_of sample_document ! 1) \<noteq> None \<and>
        field ''testInfo'' (tests_of sample_document ! 1) = None) \<or>
       (field ''testKey'' (tests_of sample_document ! 1) = None \<and>
        field ''testInfo'' (tests_of sample_document ! 1) =
          Some (JObj [(''summary'', name), (''type'', JStr ''Manual'')]))))"
proof -
  have c: "convert_magicpod_to_xray sample_repr sample_world ''report.json'' None = Inr sample_document"
    using sample_conversion by (simp add: sample_document_def)
  have l: "1 < length (tests_of sample_document)" by code_simp
  show ?thesis
    using entry_key_xor_info [OF sample_file c l] .
qed

section \<open>The converter: absent fields\<close>




section \<open>The converter: reports of the expected shape\<close>

text \<open>
  The properties of a returned document above are not empty: on the no-override path
  every report of the data model's shape is converted.
\<close>

lemma map_status_JStr_total: "\<exists>status. map_status (JStr s) = Inr status"
  by (simp add: map_status_def Let_def)

lemma extract_test_key_JStr_total: "\<exists>k. extract_test_key (JStr n) = Inr k"
  using extract_test_key_JStr [of n] by blast

lemma well_formed_name:
  assumes "result_well_formed (JObj kvs)"
  shows "\<exists>n. test_name_of (JObj kvs) = Inr (JStr n)"
proof (cases "map_of kvs ''test_case''")
  case None
  then show ?thesis by (simp add: test_name_of_def py_get_def)
next
  case (Some tc)
  with assms obtain t where t: "tc = JObj t"
    by (cases tc) (simp_all add: result_well_formed_def)
  show ?thesis
  proof (cases "map_of t ''name''")
    case None
    with Some t show ?thesis by (simp add: test_name_of_def py_get_def)
  next
    case inner: (Some v)
    with assms Some t obtain n where "v = JStr n"
      by (cases v) (simp_all add: result_well_formed_def)
    with Some t inner show ?thesis by (simp add: test_name_of_def py_get_def)
  qed
qed

lemma well_formed_status:
  assumes "result_well_formed (JObj kvs)"
  shows "\<exists>s. py_get (JObj kvs) ''status'' (JStr []) = Inr (JStr s)"
proof (cases "map_of kvs ''status''")
  case None
  then show ?thesis by (simp add: py_get_def)
next
  case (Some v)
  with assms obtain s where "v = JStr s"
    by (cases v) (simp_all add: result_well_formed_def)
  with Some show ?thesis by (simp add: py_get_def)
qed

lemma make_entry_total:
  assumes "result_well_formed r"
  shows "\<exists>e. make_entry repr r = Inr e"
proof -
  from assms obtain kvs where r: "r = JObj kvs"
    by (cases r) (simp_all add: result_well_formed_def)
  obtain n where n: "test_name_of r = Inr (JStr n)"
    using assms r well_formed_name by blast
  obtain s where s: "py_get r ''status'' (JStr []) = Inr (JStr s)"
    using assms r well_formed_status by blast
  obtain status where ms: "map_status (JStr s) = Inr status"
    using map_status_JStr_total by blast
  obtain k where k: "extract_test_key (JStr n) = Inr k"
    using extract_test_key_JStr_total by blast
  show ?thesis
    unfolding make_entry_def using n s ms k
    by (cases "if truthy_opt k then k else None") (simp_all add: Let_def)
qed

lemma results_loop_total:
  "list_all result_well_formed rs \<Longrightarrow> \<exists>t. results_loop repr tests rs = Inr t"
proof (induction rs arbitrary: tests)
  case Nil
  then show ?case by simp
next
  case (Cons r rs)
  then obtain e where e: "make_entry repr r = Inr e"
    using make_entry_total [of r repr] by auto
  from Cons.prems have "list_all result_well_formed rs" by simp
  from Cons.IH [OF this, of "tests @ [e]"] show ?case using e by simp
qed

lemma well_formed_group:
  assumes "group_well_formed d"
  shows "\<exists>rs. py_get d ''results'' (JArr []) = Inr (JArr rs) \<and> list_all result_well_formed rs"
proof -
  from assms obtain kvs where d: "d = JObj kvs"
    by (cases d) (simp_all add: group_well_formed_def)
  show ?thesis
  proof (cases "map_of kvs ''results''")
    case None
    with d show ?thesis by (simp add: py_get_def)
  next
    case (Some v)
    with assms d obtain rs where "v = JArr rs" "list_all result_well_formed rs"
      by (cases v) (simp_all add: group_well_formed_def)
    with Some d show ?thesis by (simp add: py_get_def)
  qed
qed

lemma details_loop_total:
  "list_all group_well_formed ds \<Longrightarrow> \<exists>t. details_loop repr tests ds = Inr t"
proof (induction ds arbitrary: tests)
  case Nil
  then show ?case by simp
next
  case (Cons d ds)
  then have g: "group_well_formed d" and rest: "list_all group_well_formed ds" by simp_all
  from well_formed_group [OF g] obtain rs
    where rs: "py_get d ''results'' (JArr []) = Inr (JArr rs)"
      and wf: "list_all result_well_formed rs"
    by blast
  obtain t' where t': "results_loop repr tests rs = Inr t'"
    using results_loop_total [OF wf] by blast
  obtain t where "details_loop repr t' ds = Inr t"
    using Cons.IH [OF rest] by blast
  then show ?case using rs t' by (simp add: py_iter_def)
qed

lemma well_formed_details:
  assumes "report_well_formed (JObj kvs)"
  shows "\<exists>tc details ds. py_get (JObj kvs) ''test_cases'' (JObj []) = Inr tc \<and>
           py_get tc ''details'' (JArr []) = Inr details \<and> py_iter details = Inr ds \<and>
           list_all group_well_formed ds"
proof (cases "map_of kvs ''test_cases''")
  case None
  then show ?thesis by (simp add: py_get_def py_iter_def)
next
  case (Some tc)
  with assms obtain t where t: "tc = JObj t"
    by (cases tc) (simp_all add: report_well_formed_def)
  show ?thesis
  proof (cases "map_of t ''details''")
    case None
    with Some t show ?thesis by (simp add: py_get_def py_iter_def)
  next
    case inner: (Some v)
    with assms Some t obtain ds where "v = JArr ds" "list_all group_well_formed ds"
      by (cases v) (simp_all add: report_well_formed_def)
    with Some t inner show ?thesis by (simp add: py_get_def py_iter_def)
  qed
qed

lemma convert_well_formed:
  assumes "files w p = Document mp" and "report_well_formed mp" and "\<not> truthy_opt summ"
  shows "\<exists>doc. convert_magicpod_to_xray repr w p summ = Inr doc"
proof -
  from assms(2) obtain kvs where mp: "mp = JObj kvs"
    by (cases mp) (simp_all add: report_well_formed_def)
  with assms(2) obtain u where u: "map_of kvs ''url'' = Some u"
    by (auto simp: report_well_formed_def)
  have lab: "default_labels repr mp summ =
      Inr (''MagicPod Batch Run: '' @ py_str repr u,
           Some (''Imported automatically from MagicPod. \<newline> MagicPod URL: '' @ py_str repr u))"
    using assms(3) mp u by (simp add: default_labels_def py_getitem_def)
  from well_formed_details assms(2) mp obtain tc details ds
    where tc: "py_get mp ''test_cases'' (JObj []) = Inr tc"
      and det: "py_get tc ''details'' (JArr []) = Inr details"
      and it: "py_iter details = Inr ds"
      and ds: "list_all group_well_formed ds"
    by blast
  obtain t where "details_loop repr [] ds = Inr t"
    using details_loop_total [OF ds] by blast
  then show ?thesis
    using assms(1) lab tc det it by (simp add: convert_magicpod_to_xray_def convert_loaded_def)
qed

lemma sample_report_well_formed: "report_well_formed sample_report"
  by code_simp

end
